theory Spec2Isabelle
  imports Complex_Main "HOL-Library.AList" "HOL-Library.Log_Nat"
begin

section \<open>Python values, exceptions and builtins used by \<open>view.py\<close>\<close>

text \<open>
  The module \<open>interesting_blaseball_games/view.py\<close> plans the columns of a table, builds a
  caption and renders a pandas data frame twice over (with rich, and as Markdown).
  A Python \<open>str\<close> is modelled by the \<^typ>\<open>string\<close> of its UTF-8 bytes: concatenation,
  equality, \<open>in\<close> with an ASCII needle and slicing of ASCII text are then the operations
  on byte lists.  A cell of a data frame is a \<open>pyval\<close>.  A float cell carries the
  rational number that the binary64 value denotes; NaN, the infinities and the sign of
  zero have no representation.  An exception is a value of \<open>pyexc\<close>, and a computation
  that may raise has the type \<open>pyexc + 'a\<close>.
\<close>

datatype pyexc =
    KeyError
  | TypeError
  | ValueError
  | OverflowError
  | UnboundLocalError
  | SystemExit int
  | Exception string

datatype pyval = PNone | PBool bool | PInt int | PFloat rat | PStr string

definition bindE :: "pyexc + 'a \<Rightarrow> ('a \<Rightarrow> pyexc + 'b) \<Rightarrow> pyexc + 'b" where
  "bindE m f = (case m of Inl e \<Rightarrow> Inl e | Inr x \<Rightarrow> f x)"

fun mapE :: "('a \<Rightarrow> pyexc + 'b) \<Rightarrow> 'a list \<Rightarrow> pyexc + 'b list" where
  "mapE f [] = Inr []"
| "mapE f (x # xs) = bindE (f x) (\<lambda>y. bindE (mapE f xs) (\<lambda>ys. Inr (y # ys)))"

subsection \<open>\<open>str.join\<close>, \<open>in\<close>, slices\<close>

fun join :: "string \<Rightarrow> string list \<Rightarrow> string" where
  "join sep [] = []"
| "join sep [x] = x"
| "join sep (x # y # ys) = x @ sep @ join sep (y # ys)"

text \<open>\<open>sub in s\<close> for two strings: \<open>sub\<close> occurs in \<open>s\<close> as a contiguous block.\<close>

fun str_contains :: "string \<Rightarrow> string \<Rightarrow> bool" where
  "str_contains sub [] = (sub = [])"
| "str_contains sub (c # cs) = (take (length sub) (c # cs) = sub \<or> str_contains sub cs)"

text \<open>\<open>s[-5:]\<close>: the last five characters, the whole string when it is shorter.\<close>

definition last5 :: "string \<Rightarrow> string" where
  "last5 s = drop (length s - 5) s"

text \<open>\<open>xs[:k]\<close>: a negative stop counts from the end and is clamped at the start.\<close>

definition slice_to :: "int \<Rightarrow> 'a list \<Rightarrow> 'a list" where
  "slice_to k xs = (if 0 \<le> k then take (nat k) xs else take (length xs - nat (- k)) xs)"

subsection \<open>\<open>str\<close> of an integer, \<open>round\<close>, binary64 products\<close>

definition digit_char :: "nat \<Rightarrow> char" where
  "digit_char d = ''0123456789'' ! (d mod 10)"

function digits10 :: "nat \<Rightarrow> string" where
  "digits10 n = (if n < 10 then [digit_char n] else digits10 (n div 10) @ [digit_char (n mod 10)])"
  by pat_completeness auto
termination
  by (relation "measure id") auto

declare digits10.simps [simp del]

definition str_int :: "int \<Rightarrow> string" where
  "str_int i = (if i < 0 then CHR ''-'' # digits10 (nat (- i)) else digits10 (nat i))"

text \<open>
  \<open>round(x)\<close> of a float without \<open>ndigits\<close>: the nearest integer, a tie going to the
  even neighbour.
\<close>

definition py_round :: "rat \<Rightarrow> int" where
  "py_round x =
     (let f = \<lfloor>x\<rfloor>; d = x - of_int f
      in if d < 1 / 2 then f
         else if 1 / 2 < d then f + 1
         else if even f then f else f + 1)"

definition pow2 :: "int \<Rightarrow> rat" where
  "pow2 k = (if 0 \<le> k then 2 ^ nat k else 1 / 2 ^ nat (- k))"

text \<open>\<open>floor_log2 r\<close> is the binary exponent of a non-zero rational: \<open>2^e \<le> |r| < 2^(e+1)\<close>.\<close>

definition floor_log2 :: "rat \<Rightarrow> int" where
  "floor_log2 r =
     (let (a, b) = quotient_of \<bar>r\<bar>; e0 = bitlen a - bitlen b
      in if pow2 e0 \<le> \<bar>r\<bar> then e0 else e0 - 1)"

text \<open>
  The binary64 number nearest to a rational, ties to the even significand, with 53
  significant bits and the subnormal spacing \<open>2^-1074\<close>; the exponent is not bounded from
  above here, the overflow test is made by the caller, as IEEE 754 does.
\<close>

definition fl_round :: "rat \<Rightarrow> rat" where
  "fl_round r =
     (if r = 0 then 0
      else let q = max (floor_log2 r - 52) (- 1074)
           in of_int (py_round (r / pow2 q)) * pow2 q)"

text \<open>
  A rounded result overflows to an infinity when its magnitude reaches \<open>2^1024\<close>, that
  is, when its binary exponent is 1024 or more.
\<close>

definition fl_overflow :: "rat \<Rightarrow> bool" where
  "fl_overflow r = (r \<noteq> 0 \<and> 1024 \<le> floor_log2 r)"

text \<open>
  \<open>str(x)\<close>, which is also what \<open>"%s" % x\<close> prints.  The shortest round-trip
  representation of a float is not modelled: it is the parameter \<open>frepr\<close>.
\<close>

fun py_str :: "(rat \<Rightarrow> string) \<Rightarrow> pyval \<Rightarrow> string" where
  "py_str frepr PNone = ''None''"
| "py_str frepr (PBool b) = (if b then ''True'' else ''False'')"
| "py_str frepr (PInt i) = str_int i"
| "py_str frepr (PFloat r) = frepr r"
| "py_str frepr (PStr s) = s"

subsection \<open>\<open>int(x, 16)\<close> and \<open>chr\<close>\<close>

text \<open>
  \<open>int(x, 16)\<close> raises TypeError unless \<open>x\<close> is a string.  On a string it strips
  white space, reads an optional sign, an optional prefix \<open>0x\<close> or \<open>0X\<close> (after which one
  underscore may follow), and then hexadecimal digits that single underscores may
  separate; anything else is a ValueError.  Only ASCII white space and ASCII digits
  are recognised by the model.
\<close>

definition is_space :: "char \<Rightarrow> bool" where
  "is_space c = (c \<in> set [CHR '' '', CHR 0x09, CHR 0x0A, CHR 0x0B, CHR 0x0C, CHR 0x0D])"

definition strip :: "string \<Rightarrow> string" where
  "strip s = rev (dropWhile is_space (rev (dropWhile is_space s)))"

definition hex_digit :: "char \<Rightarrow> int option" where
  "hex_digit c =
     (let n = (of_char c :: int)
      in if 48 \<le> n \<and> n \<le> 57 then Some (n - 48)
         else if 65 \<le> n \<and> n \<le> 70 then Some (n - 55)
         else if 97 \<le> n \<and> n \<le> 102 then Some (n - 87)
         else None)"

text \<open>
  The digit loop: \<open>acc\<close> is the value read so far, \<open>prev_us\<close> tells that the previous
  character was an underscore.  The caller has checked that the text does not start
  with an underscore and is not empty.
\<close>

fun hex_digits :: "int \<Rightarrow> bool \<Rightarrow> string \<Rightarrow> int option" where
  "hex_digits acc prev_us [] = (if prev_us then None else Some acc)"
| "hex_digits acc prev_us (c # cs) =
     (if c = CHR ''_'' then (if prev_us then None else hex_digits acc True cs)
      else case hex_digit c of
             None \<Rightarrow> None
           | Some d \<Rightarrow> hex_digits (16 * acc + d) False cs)"

definition hex_body :: "string \<Rightarrow> int option" where
  "hex_body s =
     (let t = (if take 2 s = ''0x'' \<or> take 2 s = ''0X''
               then (if take 1 (drop 2 s) = ''_'' then drop 3 s else drop 2 s)
               else s)
      in if t = [] \<or> take 1 t = ''_'' then None else hex_digits 0 False t)"

definition int16_str :: "string \<Rightarrow> pyexc + int" where
  "int16_str s =
     (let t = strip s;
          (neg, body) = (if take 1 t = ''-'' then (True, drop 1 t)
                         else if take 1 t = ''+'' then (False, drop 1 t)
                         else (False, t))
      in case hex_body body of
           None \<Rightarrow> Inl ValueError
         | Some n \<Rightarrow> Inr (if neg then - n else n))"

fun int16 :: "pyval \<Rightarrow> pyexc + int" where
  "int16 (PStr s) = int16_str s"
| "int16 _ = Inl TypeError"

text \<open>
  \<open>chr(n)\<close>: OverflowError outside the range of a C int, ValueError outside
  \<open>range(0x110000)\<close>, else the one-character string, here its UTF-8 bytes.
\<close>

definition utf8 :: "int \<Rightarrow> string" where
  "utf8 n =
     (if n < 0x80 then [char_of n]
      else if n < 0x800 then [char_of (0xC0 + n div 0x40), char_of (0x80 + n mod 0x40)]
      else if n < 0x10000 then
        [char_of (0xE0 + n div 0x1000), char_of (0x80 + n div 0x40 mod 0x40),
         char_of (0x80 + n mod 0x40)]
      else
        [char_of (0xF0 + n div 0x40000), char_of (0x80 + n div 0x1000 mod 0x40),
         char_of (0x80 + n div 0x40 mod 0x40), char_of (0x80 + n mod 0x40)])"

definition py_chr :: "int \<Rightarrow> pyexc + string" where
  "py_chr n =
     (if n < - (2 ^ 31) \<or> 2 ^ 31 \<le> n then Inl OverflowError
      else if n < 0 \<or> 0x110000 \<le> n then Inl ValueError
      else Inr (utf8 n))"

section \<open>Options and the view object\<close>

text \<open>
  The command-line options that \<open>view.py\<close> reads, and the attributes that
  \<open>View.__init__\<close> sets.  The constructor also builds the game data and checks the output
  path on the file system; neither is part of the model.  \<open>output_file\<close> is \<open>None\<close> when
  the option \<open>output\<close> (the field \<open>output_option\<close>) is the empty string.
\<close>

record options =
  n_results :: int
  name_style :: string
  output_option :: string
  season :: "string list"
  postseason :: bool
  team :: "string list"
  win_loss :: bool
  home_away :: bool
  winning_pitcher :: bool
  losing_pitcher :: bool
  home_pitcher :: bool
  away_pitcher :: bool

record view =
  nresults :: int
  column_headers :: "string list"
  nice_column_headers :: "string list"
  self_name_style :: string
  options :: options
  output_file :: "string option"

subsection \<open>\<open>View.assemble_column_headers\<close>\<close>

text \<open>
  The method appends to two lists in step.  \<open>team_column\<close> is the chain
  \<open>if name_style=='long' ... elif 'short' ... elif 'emoji'\<close>, which appends nothing for any
  other style; the display label is appended after it whatever the style.
\<close>

definition team_column :: "options \<Rightarrow> string \<Rightarrow> string list" where
  "team_column opts pre =
     (if name_style opts = ''long'' then [pre @ ''TeamName'']
      else if name_style opts = ''short'' then [pre @ ''TeamNickname'']
      else if name_style opts = ''emoji'' then [pre @ ''TeamEmoji'']
      else [])"

definition assemble_column_headers :: "options \<Rightarrow> string list \<times> string list" where
  "assemble_column_headers opts =
     (let column_names = [''season'', ''day'', ''isPostseason''];
          nice_column_names = [''Sea'', ''Day'', ''Post'']
      in if win_loss opts then
           (column_names
              @ (if winning_pitcher opts then [''winningPitcherName''] else [])
              @ team_column opts ''winning''
              @ [''winningOdds'', ''winningLosingScore'', ''losingOdds'']
              @ team_column opts ''losing''
              @ (if losing_pitcher opts then [''losingPitcherName''] else []),
            nice_column_names
              @ (if winning_pitcher opts then [''WP''] else [])
              @ [''Winner'', ''W Odds'', ''Score'', ''L Odds'', ''Loser'']
              @ (if losing_pitcher opts then [''LP''] else []))
         else if home_away opts then
           (column_names
              @ (if home_pitcher opts then [''homePitcherName''] else [])
              @ team_column opts ''home''
              @ [''homeOdds'', ''homeAwayScore'', ''awayOdds'']
              @ team_column opts ''away''
              @ (if away_pitcher opts then [''awayPitcherName''] else []),
            nice_column_names
              @ (if home_pitcher opts then [''Home P''] else [])
              @ [''Home'', ''A Odds'', ''Score'', ''A Odds'', ''Away'']
              @ (if away_pitcher opts then [''Away P''] else []))
         else (column_names, nice_column_names))"

definition View_init :: "options \<Rightarrow> view" where
  "View_init opts =
     (let (hs, nice) = assemble_column_headers opts
      in \<lparr> nresults = n_results opts,
           column_headers = hs,
           nice_column_headers = nice,
           self_name_style = name_style opts,
           options = opts,
           output_file = (if output_option opts = [] then None else Some (output_option opts)) \<rparr>)"

subsection \<open>\<open>View.table_description\<close>\<close>

text \<open>
  Two names come from modules that are not in \<open>view.py\<close>: the keys of
  \<open>REASON2FUNCTION\<close>, which only the error message lists, and the roster \<open>ALLTEAMS\<close>, the
  third component of \<open>get_league_division_team_data()\<close>.  Both are parameters.
\<close>

definition reason_phrase :: "string \<Rightarrow> string option" where
  "reason_phrase reason =
     (if reason = ''blowout'' then
        Some ''Blowout games (games with high scores and high run differentials) ''
      else if reason = ''shutout'' then
        Some ''Shutout games (games where the loser had zero runs) ''
      else if reason = ''shame'' then
        Some ''Shame games (games where the loser was shamed) ''
      else if reason = ''underdog'' then
        Some ''Underdog games (games where the underdog won with large run differential) ''
      else if reason = ''maxedout'' then
        Some ''Maxed out games (high-scoring one-run games) ''
      else if reason = ''defensive'' then
        Some ''Defensive games (low-scoring one-run games) ''
      else None)"

definition season_phrase :: "options \<Rightarrow> string" where
  "season_phrase opts =
     (if ''all'' \<in> set (season opts) then ''for all time ''
      else if length (season opts) = 1 then ''for season '' @ join [] (season opts) @ '' ''
      else ''for seasons '' @ join '', '' (season opts) @ '' '')"

definition postseason_phrase :: "options \<Rightarrow> string" where
  "postseason_phrase opts = (if postseason opts then ''(postseason only) '' else [])"

definition team_phrase :: "string list \<Rightarrow> options \<Rightarrow> string" where
  "team_phrase ALLTEAMS opts =
     (if length (team opts) = 1 then ''for team '' @ join [] (team opts)
      else if card (set ALLTEAMS - set (team opts)) = 0 then ''for all teams''
      else ''for teams '' @ join '', '' (team opts))"

definition table_description :: "string list \<Rightarrow> string list \<Rightarrow> view \<Rightarrow> string \<Rightarrow> pyexc + string" where
  "table_description REASONS ALLTEAMS self reason =
     (case reason_phrase reason of
        None \<Rightarrow>
          Inl (Exception (''Error: reason not recognized. Valid reasons: '' @ join '', '' REASONS))
      | Some desc \<Rightarrow>
          Inr (desc @ season_phrase (options self) @ postseason_phrase (options self)
               @ team_phrase ALLTEAMS (options self)
               @ '' (note: all days and seasons displayed are 1-indexed)''))"

section \<open>Data frames\<close>

text \<open>
  A pandas \<open>DataFrame\<close> is the ordered list of its columns, each a label with the list
  of its cells, top row first.  The frames that the data stage hands over have
  distinct labels and columns of one length; the operations below are total all the
  same.  They follow the pandas calls of \<open>view.py\<close>:
  \<^item> \<open>df[c]\<close> and \<open>df[[c1, c2, ...]]\<close> raise KeyError for a label the frame lacks;
  \<^item> \<open>df[:k]\<close> slices the rows as a Python list is sliced;
  \<^item> \<open>Series.apply(f)\<close> calls \<open>f\<close> on the cells in order, as Python objects (an
    integer cell is an unbounded \<open>int\<close>), and the first exception ends the call;
  \<^item> \<open>assign\<close> and \<open>df[c] = ...\<close> replace a column in place, or add it at the end;
  \<^item> \<open>drop(labels, axis=1)\<close> raises KeyError unless every label is a column;
  \<^item> \<open>DataFrame.apply(f, axis=1)\<close> calls \<open>f\<close> on the rows in order (what pandas does
    instead on a frame without rows is not modelled);
  \<^item> \<open>iterrows\<close> yields the rows, each with its labels;
  \<^item> \<open>len(df)\<close> is the length of the columns (0 for a frame without columns, on
    which every selection of \<open>view.py\<close> raises KeyError).
\<close>

type_synonym 'a frame = "(string \<times> 'a list) list"
type_synonym dataframe = "pyval frame"

definition len_df :: "'a frame \<Rightarrow> int" where
  "len_df df = (case df of [] \<Rightarrow> 0 | (c, col) # rest \<Rightarrow> int (length col))"

definition getitem :: "'a frame \<Rightarrow> string \<Rightarrow> pyexc + 'a list" where
  "getitem df c = (case map_of df c of None \<Rightarrow> Inl KeyError | Some col \<Rightarrow> Inr col)"

definition getitem_list :: "'a frame \<Rightarrow> string list \<Rightarrow> pyexc + 'a frame" where
  "getitem_list df cs = mapE (\<lambda>c. bindE (getitem df c) (\<lambda>col. Inr (c, col))) cs"

definition slice_rows :: "int \<Rightarrow> 'a frame \<Rightarrow> 'a frame" where
  "slice_rows k df = map (\<lambda>(c, col). (c, slice_to k col)) df"

definition Series_apply :: "('a \<Rightarrow> pyexc + 'b) \<Rightarrow> 'a list \<Rightarrow> pyexc + 'b list" where
  "Series_apply f col = mapE f col"

definition assign :: "string \<Rightarrow> 'a list \<Rightarrow> 'a frame \<Rightarrow> 'a frame" where
  "assign c col df = AList.update c col df"

definition drop_columns :: "string list \<Rightarrow> 'a frame \<Rightarrow> pyexc + 'a frame" where
  "drop_columns cs df =
     (if list_all (\<lambda>c. map_of df c \<noteq> None) cs
      then Inr (filter (\<lambda>(c, col). c \<notin> set cs) df)
      else Inl KeyError)"

definition iterrows :: "'a frame \<Rightarrow> (string \<times> 'a) list list" where
  "iterrows df = map (zip (map fst df)) (transpose (map snd df))"

definition applymap_str :: "(rat \<Rightarrow> string) \<Rightarrow> dataframe \<Rightarrow> string frame" where
  "applymap_str frepr df = map (\<lambda>(c, col). (c, map (py_str frepr) col)) df"

fun foldE :: "('a \<Rightarrow> 'b \<Rightarrow> pyexc + 'b) \<Rightarrow> 'a list \<Rightarrow> 'b \<Rightarrow> pyexc + 'b" where
  "foldE f [] a = Inr a"
| "foldE f (x # xs) a = bindE (f x a) (foldE f xs)"

section \<open>Lambdas and label lists of the two \<open>_render_table\<close> methods\<close>

text \<open>
  Both methods define the same lambdas and the same label lists; they are translated
  once.  \<open>plusone\<close> is \<open>lambda x : x + 1\<close>: a bool counts as 0 or 1, a float sum is rounded
  to binary64, and \<open>None\<close> or a string raise TypeError.
\<close>

fun plusone :: "pyval \<Rightarrow> pyexc + pyval" where
  "plusone (PInt i) = Inr (PInt (i + 1))"
| "plusone (PBool b) = Inr (PInt ((if b then 1 else 0) + 1))"
| "plusone (PFloat r) = Inr (PFloat (fl_round (r + 1)))"
| "plusone (PStr s) = Inl TypeError"
| "plusone PNone = Inl TypeError"

definition pre_labels :: "view \<Rightarrow> string list" where
  "pre_labels self = (if win_loss (options self) then [''winning'', ''losing''] else [''home'', ''away''])"

text \<open>
  \<open>namelabels\<close> is assigned in an \<open>if/elif/elif\<close> chain without \<open>else\<close>: for any other
  name style the variable stays unbound (\<open>None\<close> here), and reading it raises
  UnboundLocalError.
\<close>

definition namelabels :: "view \<Rightarrow> string list option" where
  "namelabels self =
     (if name_style (options self) = ''short'' then Some (map (\<lambda>j. j @ ''TeamNickname'') (pre_labels self))
      else if name_style (options self) = ''long'' then Some (map (\<lambda>j. j @ ''TeamName'') (pre_labels self))
      else if name_style (options self) = ''emoji'' then Some (map (\<lambda>j. j @ ''TeamEmoji'') (pre_labels self))
      else None)"

definition oddslabels :: "view \<Rightarrow> string list" where
  "oddslabels self = map (\<lambda>j. j @ ''Odds'') (pre_labels self)"

text \<open>
  \<open>round(100*x)\<close>: on an int or a bool the product is an int and \<open>round\<close> returns it; on
  a float the product is rounded to binary64 (an overflow gives infinity, which
  \<open>round\<close> refuses with OverflowError) and then to the nearest integer, ties to even;
  \<open>100*x\<close> raises TypeError on \<open>None\<close>, and \<open>round\<close> raises it on the repeated string.
\<close>

fun round_100_times :: "pyval \<Rightarrow> pyexc + int" where
  "round_100_times (PInt i) = Inr (100 * i)"
| "round_100_times (PBool b) = Inr (100 * (if b then 1 else 0))"
| "round_100_times (PFloat r) =
     (let p = fl_round (100 * r) in if fl_overflow p then Inl OverflowError else Inr (py_round p))"
| "round_100_times (PStr s) = Inl TypeError"
| "round_100_times PNone = Inl TypeError"

definition row_getitem :: "(string \<times> 'a) list \<Rightarrow> string \<Rightarrow> pyexc + 'a" where
  "row_getitem row k = (case map_of row k of None \<Rightarrow> Inl KeyError | Some v \<Rightarrow> Inr v)"

text \<open>\<open>addodds = lambda row: "%s (%d%%)"%(row[namelabel], round(100*row[oddslabel]))\<close>\<close>

definition addodds :: "(rat \<Rightarrow> string) \<Rightarrow> string \<Rightarrow> string \<Rightarrow> (string \<times> pyval) list \<Rightarrow> pyexc + pyval" where
  "addodds frepr namelabel oddslabel row =
     bindE (row_getitem row namelabel) (\<lambda>name.
     bindE (row_getitem row oddslabel) (\<lambda>odds.
     bindE (round_100_times odds) (\<lambda>p.
     Inr (PStr (py_str frepr name @ '' ('' @ str_int p @ ''%)'')))))"

text \<open>
  The body of the loop over \<open>zip(namelabels, oddslabels)\<close>: the statement under \<open>try\<close>,
  and the handler that turns a KeyError into \<open>sys.exit(1)\<close>.
\<close>

definition add_odds_column :: "(rat \<Rightarrow> string) \<Rightarrow> string \<times> string \<Rightarrow> dataframe \<Rightarrow> pyexc + dataframe" where
  "add_odds_column frepr labels cutdf =
     (let (namelabel, oddslabel) = labels;
          attempt = bindE (getitem_list cutdf [namelabel, oddslabel]) (\<lambda>sub.
                    bindE (mapE (addodds frepr namelabel oddslabel) (iterrows sub)) (\<lambda>col.
                    Inr (assign namelabel col cutdf)))
      in case attempt of Inl KeyError \<Rightarrow> Inl (SystemExit 1) | other \<Rightarrow> other)"

text \<open>\<open>emoji_lambda = lambda x: chr(int(x, 16))\<close>, applied to the columns whose label ends in \<open>Emoji\<close>.\<close>

definition emoji_lambda :: "pyval \<Rightarrow> pyexc + pyval" where
  "emoji_lambda x = bindE (int16 x) (\<lambda>n. bindE (py_chr n) (\<lambda>s. Inr (PStr s)))"

definition emoji_column :: "string \<Rightarrow> dataframe \<Rightarrow> pyexc + dataframe" where
  "emoji_column column_header cutdf =
     (if last5 column_header = ''Emoji''
      then bindE (bindE (getitem cutdf column_header) (Series_apply emoji_lambda)) (\<lambda>new_column.
           Inr (assign column_header new_column cutdf))
      else Inr cutdf)"

text \<open>\<open>[j for j in headers if 'Odds' not in j]\<close>\<close>

definition without_odds :: "string list \<Rightarrow> string list" where
  "without_odds hs = filter (\<lambda>j. \<not> str_contains ''Odds'' j) hs"

section \<open>\<open>RichView\<close>\<close>

text \<open>
  The rich table is kept as what the method hands to the library: the columns with
  their header and justification, in the order of \<open>add_column\<close>, and the rows of
  \<open>add_row\<close>.  The method prints the table and then the description; drawing the grid
  is the library's work.
\<close>

datatype justify = JustifyDefault | JustifyRight | JustifyCenter

record rich_table =
  table_columns :: "(string \<times> justify) list"
  table_rows :: "string list list"

text \<open>
  The statements of \<open>RichView._render_table\<close> up to \<open>cut.drop(oddslabels, axis=1,
  inplace=True)\<close>; they read \<open>self\<close> and do not change it.
\<close>

definition RichView_cut :: "(rat \<Rightarrow> string) \<Rightarrow> view \<Rightarrow> dataframe \<Rightarrow> string \<Rightarrow> pyexc + dataframe" where
  "RichView_cut frepr self df reason =
     bindE (getitem_list df (column_headers self)) (\<lambda>selected.
     bindE (Inr (slice_rows (min (len_df df) (nresults self)) selected)) (\<lambda>cut0.
     bindE (bindE (getitem cut0 ''season'') (Series_apply plusone)) (\<lambda>new_season_column.
     bindE (bindE (getitem cut0 ''day'') (Series_apply plusone)) (\<lambda>new_game_column.
     bindE (Inr (assign ''day'' new_game_column (assign ''season'' new_season_column cut0))) (\<lambda>cut1.
     bindE (if reason = ''underdog''
            then (case namelabels self of
                    None \<Rightarrow> Inl UnboundLocalError
                  | Some names \<Rightarrow> foldE (add_odds_column frepr) (zip names (oddslabels self)) cut1)
            else Inr cut1) (\<lambda>cut2.
     drop_columns (oddslabels self) cut2))))))"

text \<open>
  The statements after the headers are pruned: the postseason glyph, the emoji
  columns, \<open>applymap(str)\<close>.  \<open>self\<close> is the view with the pruned headers.
\<close>

definition Rich_postseason_lambda :: "pyval \<Rightarrow> pyval" where
  "Rich_postseason_lambda c = (if c = PBool False then PStr '' '' else PStr ''Y'')"

definition RichView_format :: "(rat \<Rightarrow> string) \<Rightarrow> view \<Rightarrow> dataframe \<Rightarrow> pyexc + string frame" where
  "RichView_format frepr self cut3 =
     bindE (getitem cut3 ''isPostseason'') (\<lambda>old_postseason_column.
     bindE (Inr (map Rich_postseason_lambda old_postseason_column)) (\<lambda>new_postseason_column.
     bindE (Inr (assign ''isPostseason'' new_postseason_column cut3)) (\<lambda>cut4.
     bindE (foldE emoji_column (column_headers self) cut4) (\<lambda>cut5.
     Inr (applymap_str frepr cut5)))))"

definition Rich_justify :: "view \<Rightarrow> string \<Rightarrow> justify" where
  "Rich_justify self column_header =
     (if column_header = ''losingScore'' \<or> column_header = ''awayScore'' then JustifyRight
      else if self_name_style self = ''emoji'' \<and> last5 column_header = ''Emoji'' then JustifyCenter
      else JustifyDefault)"

definition RichView_table :: "view \<Rightarrow> string frame \<Rightarrow> rich_table" where
  "RichView_table self cut6 =
     \<lparr> table_columns =
         map (\<lambda>(column_header, nice_column_header). (nice_column_header, Rich_justify self column_header))
           (zip (column_headers self) (nice_column_headers self)),
       table_rows = map (map snd) (iterrows cut6) \<rparr>"

text \<open>
  The first part of the method, up to \<open>cut = cut.applymap(str)\<close>: the new state of
  the object, and either the exception that ended the call or the frame of display
  strings.  The two assignments to \<open>self\<close> come after \<open>cut.drop\<close>: an exception raised
  before them leaves the object as it was.
\<close>

definition RichView_transform ::
  "(rat \<Rightarrow> string) \<Rightarrow> view \<Rightarrow> dataframe \<Rightarrow> string \<Rightarrow> view \<times> (pyexc + string frame)" where
  "RichView_transform frepr self df reason =
     (case RichView_cut frepr self df reason of
        Inl e \<Rightarrow> (self, Inl e)
      | Inr cut3 \<Rightarrow>
          (let self1 = self\<lparr> column_headers := without_odds (column_headers self),
                             nice_column_headers := without_odds (nice_column_headers self) \<rparr>
           in (self1, RichView_format frepr self1 cut3)))"

text \<open>The whole method: the table is built from the frame of strings and printed with the description.\<close>

definition RichView_render_table ::
  "(rat \<Rightarrow> string) \<Rightarrow> view \<Rightarrow> string \<Rightarrow> dataframe \<Rightarrow> string \<Rightarrow> view \<times> (pyexc + rich_table \<times> string)" where
  "RichView_render_table frepr self description df reason =
     (case RichView_transform frepr self df reason of
        (self1, Inl e) \<Rightarrow> (self1, Inl e)
      | (self1, Inr cut6) \<Rightarrow> (self1, Inr (RichView_table self1 cut6, description)))"

text \<open>
  \<open>RichView.make_table\<close>: one description and one rendering for each table that
  \<open>self.game_data.parse()\<close> returned, on the same object; the first exception ends the
  loop.  The result lists what was printed before that.
\<close>

fun RichView_make_table ::
  "(rat \<Rightarrow> string) \<Rightarrow> string list \<Rightarrow> string list \<Rightarrow> view \<Rightarrow> (string \<times> dataframe) list
     \<Rightarrow> view \<times> (rich_table \<times> string) list \<times> pyexc option" where
  "RichView_make_table frepr REASONS ALLTEAMS self [] = (self, [], None)"
| "RichView_make_table frepr REASONS ALLTEAMS self ((reason, df) # tables) =
     (case table_description REASONS ALLTEAMS self reason of
        Inl e \<Rightarrow> (self, [], Some e)
      | Inr desc \<Rightarrow>
          (case RichView_render_table frepr self desc df reason of
             (self1, Inl e) \<Rightarrow> (self1, [], Some e)
           | (self1, Inr shown) \<Rightarrow>
               (case RichView_make_table frepr REASONS ALLTEAMS self1 tables of
                  (self2, later, exc) \<Rightarrow> (self2, shown # later, exc))))"

section \<open>\<open>MarkdownView\<close>\<close>

text \<open>
  \<open>MarkdownView._render_table\<close> repeats the statements of the rich method, with its own
  postseason lambda, and then writes the table as text.
\<close>

definition MarkdownView_cut :: "(rat \<Rightarrow> string) \<Rightarrow> view \<Rightarrow> dataframe \<Rightarrow> string \<Rightarrow> pyexc + dataframe" where
  "MarkdownView_cut frepr self df reason =
     bindE (getitem_list df (column_headers self)) (\<lambda>selected.
     bindE (Inr (slice_rows (min (len_df df) (nresults self)) selected)) (\<lambda>cut0.
     bindE (bindE (getitem cut0 ''season'') (Series_apply plusone)) (\<lambda>new_season_column.
     bindE (bindE (getitem cut0 ''day'') (Series_apply plusone)) (\<lambda>new_game_column.
     bindE (Inr (assign ''day'' new_game_column (assign ''season'' new_season_column cut0))) (\<lambda>cut1.
     bindE (if reason = ''underdog''
            then (case namelabels self of
                    None \<Rightarrow> Inl UnboundLocalError
                  | Some names \<Rightarrow> foldE (add_odds_column frepr) (zip names (oddslabels self)) cut1)
            else Inr cut1) (\<lambda>cut2.
     drop_columns (oddslabels self) cut2))))))"

definition Markdown_postseason_lambda :: "pyval \<Rightarrow> pyval" where
  "Markdown_postseason_lambda c = (if c = PBool False then PStr [] else PStr ''*'')"

definition MarkdownView_format :: "(rat \<Rightarrow> string) \<Rightarrow> view \<Rightarrow> dataframe \<Rightarrow> pyexc + string frame" where
  "MarkdownView_format frepr self cut3 =
     bindE (getitem cut3 ''isPostseason'') (\<lambda>old_postseason_column.
     bindE (Inr (map Markdown_postseason_lambda old_postseason_column)) (\<lambda>new_postseason_column.
     bindE (Inr (assign ''isPostseason'' new_postseason_column cut3)) (\<lambda>cut4.
     bindE (foldE emoji_column (column_headers self) cut4) (\<lambda>cut5.
     Inr (applymap_str frepr cut5)))))"

text \<open>
  The header line and the separator line: the loop skips \<open>isPostseason\<close>; the third
  separator cell is written \<open>"------ |"\<close>, without the blank at its end.
\<close>

fun Markdown_header :: "(string \<times> string) list \<Rightarrow> string" where
  "Markdown_header [] = []"
| "Markdown_header ((column_header, nice_column_header) # rest) =
     (if column_header = ''isPostseason'' then Markdown_header rest
      else nice_column_header @ '' | '' @ Markdown_header rest)"

definition Markdown_sep_cell :: "view \<Rightarrow> string \<Rightarrow> string" where
  "Markdown_sep_cell self column_header =
     (if column_header = ''losingScore'' \<or> column_header = ''awayScore'' then ''------: | ''
      else if self_name_style self = ''emoji'' \<and> last5 column_header = ''Emoji'' then '':------: | ''
      else ''------ |'')"

fun Markdown_sep :: "view \<Rightarrow> (string \<times> string) list \<Rightarrow> string" where
  "Markdown_sep self [] = []"
| "Markdown_sep self ((column_header, nice_column_header) # rest) =
     (if column_header = ''isPostseason'' then Markdown_sep self rest
      else Markdown_sep_cell self column_header @ Markdown_sep self rest)"

text \<open>
  One row: \<open>isPostseason\<close> is skipped, and the cell of \<open>day\<close> is followed by
  \<open>row['isPostseason']\<close>.
\<close>

fun Markdown_cells :: "(string \<times> string) list \<Rightarrow> (string \<times> string) list \<Rightarrow> pyexc + string" where
  "Markdown_cells row [] = Inr []"
| "Markdown_cells row ((k, val) # rest) =
     (if k = ''isPostseason'' then Markdown_cells row rest
      else if k = ''day'' then
        bindE (row_getitem row ''isPostseason'') (\<lambda>glyph.
        bindE (Markdown_cells row rest) (\<lambda>others. Inr (val @ glyph @ '' | '' @ others)))
      else bindE (Markdown_cells row rest) (\<lambda>others. Inr (val @ '' | '' @ others)))"

definition Markdown_row :: "(string \<times> string) list \<Rightarrow> pyexc + string" where
  "Markdown_row row = bindE (Markdown_cells row row) (\<lambda>cells. Inr (''| '' @ cells @ [CHR 0x0A]))"

definition MarkdownView_table :: "view \<Rightarrow> string frame \<Rightarrow> pyexc + string" where
  "MarkdownView_table self cut6 =
     (let plan = zip (column_headers self) (nice_column_headers self);
          table_header = ''| '' @ Markdown_header plan;
          table_sep = ''| '' @ Markdown_sep self plan
      in bindE (mapE Markdown_row (iterrows cut6)) (\<lambda>table_rows.
         Inr (table_header @ [CHR 0x0A] @ table_sep @ [CHR 0x0A] @ concat table_rows)))"

text \<open>
  What the method emits: four \<open>print\<close> calls when there is no output file, else one
  append to the file.
\<close>

datatype emitted = Printed string | Appended string string

definition Markdown_emit :: "view \<Rightarrow> string \<Rightarrow> string \<Rightarrow> emitted" where
  "Markdown_emit self description table =
     (case output_file self of
        None \<Rightarrow>
          Printed ([CHR 0x0A, CHR 0x0A, CHR 0x0A] @ description @ [CHR 0x0A]
                   @ [CHR 0x0A, CHR 0x0A] @ table @ [CHR 0x0A])
      | Some path \<Rightarrow>
          Appended path ([CHR 0x0A, CHR 0x0A] @ description @ [CHR 0x0A] @ table))"

definition MarkdownView_transform ::
  "(rat \<Rightarrow> string) \<Rightarrow> view \<Rightarrow> dataframe \<Rightarrow> string \<Rightarrow> view \<times> (pyexc + string frame)" where
  "MarkdownView_transform frepr self df reason =
     (case MarkdownView_cut frepr self df reason of
        Inl e \<Rightarrow> (self, Inl e)
      | Inr cut3 \<Rightarrow>
          (let self1 = self\<lparr> column_headers := without_odds (column_headers self),
                             nice_column_headers := without_odds (nice_column_headers self) \<rparr>
           in (self1, MarkdownView_format frepr self1 cut3)))"

definition MarkdownView_render_table ::
  "(rat \<Rightarrow> string) \<Rightarrow> view \<Rightarrow> string \<Rightarrow> dataframe \<Rightarrow> string \<Rightarrow> view \<times> (pyexc + emitted)" where
  "MarkdownView_render_table frepr self description df reason =
     (case MarkdownView_transform frepr self df reason of
        (self1, Inl e) \<Rightarrow> (self1, Inl e)
      | (self1, Inr cut6) \<Rightarrow>
          (self1, bindE (MarkdownView_table self1 cut6) (\<lambda>table.
                  Inr (Markdown_emit self1 description table))))"

fun MarkdownView_make_table ::
  "(rat \<Rightarrow> string) \<Rightarrow> string list \<Rightarrow> string list \<Rightarrow> view \<Rightarrow> (string \<times> dataframe) list
     \<Rightarrow> view \<times> emitted list \<times> pyexc option" where
  "MarkdownView_make_table frepr REASONS ALLTEAMS self [] = (self, [], None)"
| "MarkdownView_make_table frepr REASONS ALLTEAMS self ((reason, df) # tables) =
     (case table_description REASONS ALLTEAMS self reason of
        Inl e \<Rightarrow> (self, [], Some e)
      | Inr desc \<Rightarrow>
          (case MarkdownView_render_table frepr self
                  (desc @ '' (asterisk indicates a postseason game)'') df reason of
             (self1, Inl e) \<Rightarrow> (self1, [], Some e)
           | (self1, Inr shown) \<Rightarrow>
               (case MarkdownView_make_table frepr REASONS ALLTEAMS self1 tables of
                  (self2, later, exc) \<Rightarrow> (self2, shown # later, exc))))"

section \<open>Reading a displayed number\<close>

text \<open>
  The inverse of the display of an integer is not part of \<open>view.py\<close>; it is written
  here to state that a displayed season or day determines the stored one.  \<open>read_int\<close>
  reads a decimal numeral with an optional minus sign.
\<close>

fun digits_value :: "nat \<Rightarrow> string \<Rightarrow> nat" where
  "digits_value acc [] = acc"
| "digits_value acc (c # cs) = digits_value (10 * acc + (of_char c - 48)) cs"

definition read_int :: "string \<Rightarrow> int" where
  "read_int s =
     (case s of
        [] \<Rightarrow> 0
      | c # cs \<Rightarrow> if c = CHR ''-'' then - int (digits_value 0 cs) else int (digits_value 0 s))"

section \<open>Example inputs\<close>

text \<open>
  A configuration by winner and loser with long names and no pitcher columns, and a
  frame of two games with the columns that configuration selects (and one more, which
  the selection leaves out).  The odds are binary fractions, exact in binary64.
\<close>

definition example_options :: options where
  "example_options =
     \<lparr> n_results = 5, name_style = ''long'', output_option = [], season = [''3''],
       postseason = False, team = [''Tigers'', ''Sunbeams''], win_loss = True,
       home_away = False, winning_pitcher = False, losing_pitcher = False,
       home_pitcher = False, away_pitcher = False \<rparr>"

definition example_frame :: dataframe where
  "example_frame =
     [(''season'', [PInt 2, PInt 3]),
      (''day'', [PInt 10, PInt 98]),
      (''isPostseason'', [PBool False, PBool True]),
      (''winningTeamName'', [PStr ''Moist Talkers'', PStr ''Tigers'']),
      (''winningOdds'', [PFloat (3 / 8), PFloat (1 / 8)]),
      (''winningLosingScore'', [PStr ''10 - 0'', PStr ''7 - 0'']),
      (''losingOdds'', [PFloat (5 / 8), PFloat (7 / 8)]),
      (''losingTeamName'', [PStr ''Sunbeams'', PStr ''Crabs'']),
      (''homeScore'', [PInt 10, PInt 0])]"

definition example_reasons :: "string list" where
  "example_reasons = [''blowout'', ''shutout'', ''shame'', ''underdog'', ''maxedout'', ''defensive'']"

section \<open>Lemmas on the operations\<close>

lemma bindE_Inl [simp]: "bindE (Inl e) f = Inl e"
  by (simp add: bindE_def)

lemma bindE_Inr [simp]: "bindE (Inr x) f = f x"
  by (simp add: bindE_def)

lemma bindE_eq_Inr: "(bindE m f = Inr y) = (\<exists>x. m = Inr x \<and> f x = Inr y)"
  by (cases m) simp_all


lemma getitem_Inr: "(getitem df c = Inr col) = (map_of df c = Some col)"
  by (simp add: getitem_def split: option.splits)

lemma getitem_list_keys: "getitem_list df cs = Inr sel \<Longrightarrow> map fst sel = cs"
  unfolding getitem_list_def
  by (induction cs arbitrary: sel) (auto simp: bindE_eq_Inr)

lemma getitem_list_map_of:
  "getitem_list df cs = Inr sel \<Longrightarrow> c \<in> set cs \<Longrightarrow> map_of sel c = map_of df c \<and> map_of df c \<noteq> None"
  unfolding getitem_list_def
  by (induction cs arbitrary: sel) (auto simp: bindE_eq_Inr getitem_Inr)

lemma slice_rows_keys [simp]: "map fst (slice_rows k df) = map fst df"
  by (induction df) (auto simp: slice_rows_def)

lemma slice_rows_map_of: "map_of (slice_rows k df) c = map_option (slice_to k) (map_of df c)"
  by (induction df) (auto simp: slice_rows_def)

lemma assign_map_of: "map_of (assign c col df) = (map_of df)(c \<mapsto> col)"
  by (simp add: assign_def update_conv')

lemma assign_keys_present: "c \<in> set (map fst df) \<Longrightarrow> map fst (assign c col df) = map fst df"
  by (simp add: assign_def update_keys)

lemma map_of_keys: "(map_of df c \<noteq> None) = (c \<in> set (map fst df))"
  by (simp add: map_of_eq_None_iff)

lemma map_of_filter_keys:
  "c \<notin> set cs \<Longrightarrow> map_of (filter (\<lambda>(k, v). k \<notin> set cs) df) c = map_of df c"
  by (induction df) auto

lemma drop_columns_map_of:
  "drop_columns cs df = Inr df' \<Longrightarrow> c \<notin> set cs \<Longrightarrow> map_of df' c = map_of df c"
  by (auto simp: drop_columns_def map_of_filter_keys split: if_splits)

lemma drop_columns_Inr_keys: "drop_columns cs df = Inr df' \<Longrightarrow> set cs \<subseteq> set (map fst df)"
  unfolding drop_columns_def
  by (auto split: if_splits simp: list_all_iff map_of_eq_None_iff)

lemma applymap_str_map_of:
  "map_of (applymap_str frepr df) c = map_option (map (py_str frepr)) (map_of df c)"
  by (induction df) (auto simp: applymap_str_def)

lemma add_odds_column_other:
  "add_odds_column frepr (n, o') cutdf = Inr cutdf' \<Longrightarrow> c \<noteq> n \<Longrightarrow> map_of cutdf' c = map_of cutdf c"
  by (auto simp: add_odds_column_def bindE_eq_Inr assign_map_of Let_def split: sum.splits pyexc.splits)

lemma add_odds_column_keys:
  "add_odds_column frepr (n, o') cutdf = Inr cutdf' \<Longrightarrow> map fst cutdf' = map fst cutdf"
  apply (auto simp: add_odds_column_def bindE_eq_Inr Let_def split: sum.splits pyexc.splits)
  apply (rule assign_keys_present)
  apply (drule getitem_list_map_of [where c = n])
   apply (simp_all add: map_of_eq_None_iff)
  done

lemma foldE_add_odds_other:
  "foldE (add_odds_column frepr) ls cutdf = Inr cutdf' \<Longrightarrow> c \<notin> fst ` set ls \<Longrightarrow> map_of cutdf' c = map_of cutdf c"
proof (induction ls arbitrary: cutdf)
  case Nil
  then show ?case by simp
next
  case (Cons l ls)
  obtain n o' where l: "l = (n, o')" by (cases l)
  from Cons.prems obtain mid where
    m: "add_odds_column frepr (n, o') cutdf = Inr mid" and r: "foldE (add_odds_column frepr) ls mid = Inr cutdf'"
    by (auto simp: bindE_eq_Inr l)
  from Cons.prems l have "c \<noteq> n" and "c \<notin> fst ` set ls" by auto
  then show ?case
    using Cons.IH [OF r] add_odds_column_other [OF m] by simp
qed

lemma foldE_add_odds_keys:
  "foldE (add_odds_column frepr) ls cutdf = Inr cutdf' \<Longrightarrow> map fst cutdf' = map fst cutdf"
proof (induction ls arbitrary: cutdf)
  case Nil
  then show ?case by simp
next
  case (Cons l ls)
  obtain n o' where l: "l = (n, o')" by (cases l)
  from Cons.prems obtain mid where
    m: "add_odds_column frepr (n, o') cutdf = Inr mid" and r: "foldE (add_odds_column frepr) ls mid = Inr cutdf'"
    by (auto simp: bindE_eq_Inr l)
  show ?case
    using Cons.IH [OF r] add_odds_column_keys [OF m] by simp
qed

lemma emoji_column_other:
  "emoji_column h cutdf = Inr cutdf' \<Longrightarrow> last5 c \<noteq> ''Emoji'' \<Longrightarrow> map_of cutdf' c = map_of cutdf c"
  by (auto simp: emoji_column_def bindE_eq_Inr assign_map_of split: if_splits)

lemma foldE_emoji_other:
  "foldE emoji_column hs cutdf = Inr cutdf' \<Longrightarrow> last5 c \<noteq> ''Emoji'' \<Longrightarrow> map_of cutdf' c = map_of cutdf c"
proof (induction hs arbitrary: cutdf)
  case Nil
  then show ?case by simp
next
  case (Cons h hs)
  from Cons.prems obtain mid where
    m: "emoji_column h cutdf = Inr mid" and r: "foldE emoji_column hs mid = Inr cutdf'"
    by (auto simp: bindE_eq_Inr)
  show ?case
    using Cons.IH [OF r Cons.prems(2)] emoji_column_other [OF m Cons.prems(2)] by simp
qed

lemma namelabels_not_base:
  "namelabels self = Some names \<Longrightarrow> ''season'' \<notin> set names \<and> ''day'' \<notin> set names \<and> ''isPostseason'' \<notin> set names"
  by (auto simp: namelabels_def pre_labels_def split: if_splits)

lemma oddslabels_not_base:
  "''season'' \<notin> set (oddslabels self) \<and> ''day'' \<notin> set (oddslabels self) \<and> ''isPostseason'' \<notin> set (oddslabels self)"
  by (auto simp: oddslabels_def pre_labels_def)

lemma last5_base [simp]:
  "last5 ''season'' \<noteq> ''Emoji''" "last5 ''day'' \<noteq> ''Emoji''" "last5 ''isPostseason'' \<noteq> ''Emoji''"
  by (simp_all add: last5_def)

lemma digit_char_code: "of_char (digit_char d) = (48::nat) + d mod 10"
proof -
  have "[0..<10] = [0, 1, 2, 3, 4, 5, 6, 7, 8, 9 :: nat]" by code_simp
  moreover have "d mod 10 \<in> set [0..<10]" by simp
  ultimately have "d mod 10 \<in> set [0, 1, 2, 3, 4, 5, 6, 7, 8, 9 :: nat]" by simp
  then show ?thesis
    by (auto simp: digit_char_def)
qed

lemma digit_char_not_minus: "digit_char d \<noteq> CHR ''-''"
proof
  assume "digit_char d = CHR ''-''"
  then have "of_char (digit_char d) = (of_char CHR ''-'' :: nat)" by simp
  then show False by (simp add: digit_char_code)
qed

lemma digits_value_snoc: "digits_value acc (xs @ [c]) = 10 * digits_value acc xs + (of_char c - 48)"
  by (induction xs arbitrary: acc) simp_all

lemma digits_value_digits10: "digits_value 0 (digits10 n) = n"
proof (induction n rule: digits10.induct)
  case (1 n)
  show ?case
  proof (cases "n < 10")
    case True
    then show ?thesis
      by (subst digits10.simps) (simp add: digit_char_code)
  next
    case False
    then have "digits_value 0 (digits10 (n div 10)) = n div 10"
      using "1" by simp
    with False show ?thesis
      by (subst digits10.simps) (simp add: digits_value_snoc digit_char_code)
  qed
qed

lemma digits10_head: "\<exists>d ds. digits10 n = digit_char d # ds"
proof (induction n rule: digits10.induct)
  case (1 n)
  show ?case
  proof (cases "n < 10")
    case True
    then show ?thesis by (subst digits10.simps) auto
  next
    case False
    with "1" obtain d ds where "digits10 (n div 10) = digit_char d # ds" by auto
    with False show ?thesis by (subst digits10.simps) auto
  qed
qed

lemma read_int_str_int: "read_int (str_int i) = i"
proof (cases "i < 0")
  case True
  then show ?thesis
    by (simp add: read_int_def str_int_def digits_value_digits10)
next
  case False
  obtain d ds where h: "digits10 (nat i) = digit_char d # ds"
    using digits10_head by blast
  have "digits_value 0 (digit_char d # ds) = nat i"
    using digits_value_digits10 [of "nat i"] h by simp
  with False h show ?thesis
    by (simp add: read_int_def str_int_def digit_char_not_minus del: digits_value.simps)
qed

lemma slice_to_map: "slice_to k (map f xs) = map f (slice_to k xs)"
  by (simp add: slice_to_def take_map)

lemma Series_apply_plusone_ints:
  "Series_apply plusone (map PInt vs) = Inr (map (\<lambda>V. PInt (V + 1)) vs)"
  unfolding Series_apply_def
  by (induction vs) simp_all

lemma MarkdownView_cut_eq: "MarkdownView_cut frepr self df reason = RichView_cut frepr self df reason"
  by (simp add: MarkdownView_cut_def RichView_cut_def)

lemma getitem_bind_present: "bindE (getitem d c) f = Inr y \<Longrightarrow> c \<in> set (map fst d)"
proof -
  assume "bindE (getitem d c) f = Inr y"
  then obtain col where "map_of d c = Some col"
    by (auto simp: bindE_eq_Inr getitem_Inr)
  then have "map_of d c \<noteq> None" by simp
  then show ?thesis by (simp only: map_of_keys)
qed

lemma RichView_cut_keys:
  assumes "RichView_cut frepr self df reason = Inr cut3"
  shows "set (oddslabels self) \<subseteq> set (column_headers self)"
proof -
  let ?k = "min (len_df df) (nresults self)"
  from assms obtain selected ns nd cut2 where
    sel: "getitem_list df (column_headers self) = Inr selected"
    and ns: "bindE (getitem (slice_rows ?k selected) ''season'') (Series_apply plusone) = Inr ns"
    and nd: "bindE (getitem (slice_rows ?k selected) ''day'') (Series_apply plusone) = Inr nd"
    and c2: "(if reason = ''underdog''
              then (case namelabels self of None \<Rightarrow> Inl UnboundLocalError
                    | Some names \<Rightarrow> foldE (add_odds_column frepr) (zip names (oddslabels self))
                        (assign ''day'' nd (assign ''season'' ns (slice_rows ?k selected))))
              else Inr (assign ''day'' nd (assign ''season'' ns (slice_rows ?k selected)))) = Inr cut2"
    and dr: "drop_columns (oddslabels self) cut2 = Inr cut3"
    unfolding RichView_cut_def by (auto simp: bindE_eq_Inr)
  have keys0: "map fst (slice_rows ?k selected) = column_headers self"
    using getitem_list_keys [OF sel] by simp
  have s_in: "''season'' \<in> set (column_headers self)"
    using getitem_bind_present [OF ns] unfolding keys0 .
  have d_in: "''day'' \<in> set (column_headers self)"
    using getitem_bind_present [OF nd] unfolding keys0 .
  have keys1: "map fst (assign ''day'' nd (assign ''season'' ns (slice_rows ?k selected))) = column_headers self"
    using keys0 s_in d_in by (simp add: assign_keys_present)
  have keys2: "map fst cut2 = column_headers self"
    using c2 keys1 by (auto split: if_splits option.splits dest: foldE_add_odds_keys)
  show ?thesis
    using drop_columns_Inr_keys [OF dr] keys2 by simp
qed

lemma RichView_cut_column:
  assumes cut: "RichView_cut frepr self df reason = Inr cut3"
      and c: "c = ''season'' \<or> c = ''day''"
      and col: "map_of df c = Some (map PInt vs)"
  shows "map_of cut3 c = Some (map (\<lambda>V. PInt (V + 1)) (slice_to (min (len_df df) (nresults self)) vs))"
proof -
  let ?k = "min (len_df df) (nresults self)"
  from cut obtain selected ns nd cut2 where
    sel: "getitem_list df (column_headers self) = Inr selected"
    and ns: "bindE (getitem (slice_rows ?k selected) ''season'') (Series_apply plusone) = Inr ns"
    and nd: "bindE (getitem (slice_rows ?k selected) ''day'') (Series_apply plusone) = Inr nd"
    and c2: "(if reason = ''underdog''
              then (case namelabels self of None \<Rightarrow> Inl UnboundLocalError
                    | Some names \<Rightarrow> foldE (add_odds_column frepr) (zip names (oddslabels self))
                        (assign ''day'' nd (assign ''season'' ns (slice_rows ?k selected))))
              else Inr (assign ''day'' nd (assign ''season'' ns (slice_rows ?k selected)))) = Inr cut2"
    and dr: "drop_columns (oddslabels self) cut2 = Inr cut3"
    unfolding RichView_cut_def by (auto simp: bindE_eq_Inr)
  let ?cut1 = "assign ''day'' nd (assign ''season'' ns (slice_rows ?k selected))"
  have keys: "map fst selected = column_headers self"
    using getitem_list_keys [OF sel] .
  have sliced: "c' \<in> set (column_headers self) \<Longrightarrow> map_of df c' = Some (map PInt ws) \<Longrightarrow>
      map_of (slice_rows ?k selected) c' = Some (map PInt (slice_to ?k ws))" for c' ws
    using getitem_list_map_of [OF sel, of c'] by (simp add: slice_rows_map_of slice_to_map)
  have present: "c' \<in> set (column_headers self)" if "map_of (slice_rows ?k selected) c' = Some x" for c' x
  proof -
    from that have "map_of (slice_rows ?k selected) c' \<noteq> None" by simp
    then have "c' \<in> set (map fst (slice_rows ?k selected))" by (simp only: map_of_keys)
    then show ?thesis unfolding slice_rows_keys keys .
  qed
  have new: "map_of ?cut1 c = Some (map (\<lambda>V. PInt (V + 1)) (slice_to ?k vs))"
  proof (cases "c = ''season''")
    case True
    from ns obtain old where o: "map_of (slice_rows ?k selected) ''season'' = Some old"
      and a: "Series_apply plusone old = Inr ns"
      by (auto simp: bindE_eq_Inr getitem_Inr)
    have "old = map PInt (slice_to ?k vs)"
      using sliced [OF present [OF o]] col o True by simp
    with a have "ns = map (\<lambda>V. PInt (V + 1)) (slice_to ?k vs)"
      by (simp add: Series_apply_plusone_ints)
    with True show ?thesis by (simp add: assign_map_of)
  next
    case False
    with c have d: "c = ''day''" by simp
    from nd obtain old where o: "map_of (slice_rows ?k selected) ''day'' = Some old"
      and a: "Series_apply plusone old = Inr nd"
      by (auto simp: bindE_eq_Inr getitem_Inr)
    have "old = map PInt (slice_to ?k vs)"
      using sliced [OF present [OF o]] col o d by simp
    with a have "nd = map (\<lambda>V. PInt (V + 1)) (slice_to ?k vs)"
      by (simp add: Series_apply_plusone_ints)
    with d show ?thesis by (simp add: assign_map_of)
  qed
  have two: "map_of cut2 c = map_of ?cut1 c"
  proof (cases "reason = ''underdog''")
    case True
    with c2 obtain names where n: "namelabels self = Some names"
      and f: "foldE (add_odds_column frepr) (zip names (oddslabels self)) ?cut1 = Inr cut2"
      by (auto split: option.splits)
    have "c \<notin> set names"
      using namelabels_not_base [OF n] c by auto
    then have "c \<notin> fst ` set (zip names (oddslabels self))"
      by (auto dest: set_zip_leftD)
    then show ?thesis
      using foldE_add_odds_other [OF f] by simp
  next
    case False
    with c2 show ?thesis by simp
  qed
  have "c \<notin> set (oddslabels self)"
    using oddslabels_not_base [of self] c by auto
  then have "map_of cut3 c = map_of cut2 c"
    using drop_columns_map_of [OF dr] by simp
  with two new show ?thesis by simp
qed

lemma RichView_format_column:
  assumes "RichView_format frepr self cut3 = Inr shown"
      and "last5 c \<noteq> ''Emoji''" and "c \<noteq> ''isPostseason''"
  shows "map_of shown c = map_option (map (py_str frepr)) (map_of cut3 c)"
  using assms
  by (auto simp: RichView_format_def bindE_eq_Inr applymap_str_map_of assign_map_of
      dest!: foldE_emoji_other [where c = c])

lemma MarkdownView_format_column:
  assumes "MarkdownView_format frepr self cut3 = Inr shown"
      and "last5 c \<noteq> ''Emoji''" and "c \<noteq> ''isPostseason''"
  shows "map_of shown c = map_option (map (py_str frepr)) (map_of cut3 c)"
  using assms
  by (auto simp: MarkdownView_format_def bindE_eq_Inr applymap_str_map_of assign_map_of
      dest!: foldE_emoji_other [where c = c])
lemma assign_swap:
  "c \<noteq> c' \<Longrightarrow> c \<in> set (map fst df) \<Longrightarrow>
     assign c col (assign c' col' df) = assign c' col' (assign c col df)"
  unfolding assign_def
  by (induction df) auto

lemma assign_assign: "assign c col (assign c col' df) = assign c col df"
  by (simp add: assign_def)

lemma applymap_str_assign:
  "applymap_str frepr (assign c col df) = assign c (map (py_str frepr) col) (applymap_str frepr df)"
  unfolding assign_def applymap_str_def
  by (induction df) auto

lemma emoji_column_assign:
  assumes "last5 c' \<noteq> ''Emoji''"
  shows "emoji_column h (assign c' col' df)
           = (case emoji_column h df of Inl e \<Rightarrow> Inl e | Inr df' \<Rightarrow> Inr (assign c' col' df'))"
proof (cases "last5 h = ''Emoji''")
  case False
  then show ?thesis by (simp add: emoji_column_def)
next
  case True
  with assms have ne: "h \<noteq> c'" by auto
  show ?thesis
  proof (cases "map_of df h")
    case None
    with True ne show ?thesis
      by (simp add: emoji_column_def getitem_def assign_map_of)
  next
    case (Some old)
    then have "map_of df h \<noteq> None" by simp
    then have "h \<in> set (map fst df)" by (simp only: map_of_keys)
    then have "assign h new (assign c' col' df) = assign c' col' (assign h new df)" for new
      by (rule assign_swap [OF ne])
    with True ne Some show ?thesis
      by (cases "Series_apply emoji_lambda old")
        (simp_all add: emoji_column_def getitem_def assign_map_of)
  qed
qed

lemma foldE_emoji_assign:
  assumes "last5 c' \<noteq> ''Emoji''"
  shows "foldE emoji_column hs (assign c' col' df)
           = (case foldE emoji_column hs df of Inl e \<Rightarrow> Inl e | Inr df' \<Rightarrow> Inr (assign c' col' df'))"
proof (induction hs arbitrary: df)
  case Nil
  show ?case by simp
next
  case (Cons h hs)
  show ?case
    by (cases "emoji_column h df") (simp_all add: emoji_column_assign [OF assms] Cons.IH)
qed

lemma RichView_format_alt:
  "RichView_format frepr self cut3 =
     (case map_of cut3 ''isPostseason'' of
        None \<Rightarrow> Inl KeyError
      | Some old \<Rightarrow>
          (case foldE emoji_column (column_headers self) cut3 of
             Inl e \<Rightarrow> Inl e
           | Inr cut5 \<Rightarrow>
               Inr (assign ''isPostseason'' (map (\<lambda>c. py_str frepr (Rich_postseason_lambda c)) old)
                      (applymap_str frepr cut5))))"
  by (simp add: RichView_format_def getitem_def foldE_emoji_assign applymap_str_assign comp_def
      split: option.splits sum.splits)

lemma MarkdownView_format_alt:
  "MarkdownView_format frepr self cut3 =
     (case map_of cut3 ''isPostseason'' of
        None \<Rightarrow> Inl KeyError
      | Some old \<Rightarrow>
          (case foldE emoji_column (column_headers self) cut3 of
             Inl e \<Rightarrow> Inl e
           | Inr cut5 \<Rightarrow>
               Inr (assign ''isPostseason'' (map (\<lambda>c. py_str frepr (Markdown_postseason_lambda c)) old)
                      (applymap_str frepr cut5))))"
  by (simp add: MarkdownView_format_def getitem_def foldE_emoji_assign applymap_str_assign comp_def
      split: option.splits sum.splits)

lemma Rich_glyph_text:
  "py_str frepr (Rich_postseason_lambda c) = (if c = PBool False then '' '' else ''Y'')"
  by (simp add: Rich_postseason_lambda_def)

lemma Markdown_glyph_text:
  "py_str frepr (Markdown_postseason_lambda c) = (if c = PBool False then [] else ''*'')"
  by (simp add: Markdown_postseason_lambda_def)

lemma RichView_transform_Inr:
  assumes "snd (RichView_transform frepr self df reason) = Inr shown"
  obtains cut3 where "RichView_cut frepr self df reason = Inr cut3"
    and "RichView_format frepr
           (self\<lparr> column_headers := without_odds (column_headers self),
                   nice_column_headers := without_odds (nice_column_headers self) \<rparr>) cut3 = Inr shown"
  using assms by (auto simp: RichView_transform_def Let_def split: sum.splits)

lemma MarkdownView_transform_Inr:
  assumes "snd (MarkdownView_transform frepr self df reason) = Inr shown"
  obtains cut3 where "RichView_cut frepr self df reason = Inr cut3"
    and "MarkdownView_format frepr
           (self\<lparr> column_headers := without_odds (column_headers self),
                   nice_column_headers := without_odds (nice_column_headers self) \<rparr>) cut3 = Inr shown"
  using assms by (auto simp: MarkdownView_transform_def MarkdownView_cut_eq Let_def split: sum.splits)


lemma str_contains_self: "str_contains sub sub"
  by (cases sub) simp_all

lemma str_contains_append: "str_contains sub (pre @ sub)"
  by (induction pre) (simp_all add: str_contains_self)

lemma oddslabels_contain_Odds: "l \<in> set (oddslabels self) \<Longrightarrow> str_contains ''Odds'' l"
  by (auto simp: oddslabels_def str_contains_append)

lemma oddslabels_not_pruned: "\<not> set (oddslabels self) \<subseteq> set (without_odds hs)"
proof
  assume a: "set (oddslabels self) \<subseteq> set (without_odds hs)"
  have "oddslabels self \<noteq> []"
    by (simp add: oddslabels_def pre_labels_def)
  then obtain l where l: "l \<in> set (oddslabels self)"
    by (cases "oddslabels self") auto
  with a have "\<not> str_contains ''Odds'' l"
    by (auto simp: without_odds_def)
  with oddslabels_contain_Odds [OF l] show False by simp
qed

lemma oddslabels_update [simp]:
  "oddslabels (self\<lparr>column_headers := hs, nice_column_headers := ns\<rparr>) = oddslabels self"
  by (simp add: oddslabels_def pre_labels_def)

lemma pruned_cut_fails:
  "\<exists>e. RichView_cut frepr
          (self\<lparr> column_headers := without_odds (column_headers self),
                  nice_column_headers := without_odds (nice_column_headers self) \<rparr>) df reason = Inl e"
proof (cases "RichView_cut frepr
          (self\<lparr> column_headers := without_odds (column_headers self),
                  nice_column_headers := without_odds (nice_column_headers self) \<rparr>) df reason")
  case (Inl e)
  then show ?thesis by simp
next
  case (Inr cut3)
  from RichView_cut_keys [OF Inr] oddslabels_not_pruned [of self "column_headers self"]
  show ?thesis by simp
qed








lemma RichView_render_state:
  "snd (RichView_render_table frepr self description df reason) = Inr shown \<Longrightarrow>
     fst (RichView_render_table frepr self description df reason)
       = self\<lparr> column_headers := without_odds (column_headers self),
               nice_column_headers := without_odds (nice_column_headers self) \<rparr>"
  by (auto simp: RichView_render_table_def RichView_transform_def Let_def split: sum.splits prod.splits)

lemma MarkdownView_render_state:
  "snd (MarkdownView_render_table frepr self description df reason) = Inr shown \<Longrightarrow>
     fst (MarkdownView_render_table frepr self description df reason)
       = self\<lparr> column_headers := without_odds (column_headers self),
               nice_column_headers := without_odds (nice_column_headers self) \<rparr>"
  by (auto simp: MarkdownView_render_table_def MarkdownView_transform_def Let_def
      split: sum.splits prod.splits)

lemma pruned_render_fails:
  fixes self :: view
  defines "self1 \<equiv> self\<lparr> column_headers := without_odds (column_headers self),
                           nice_column_headers := without_odds (nice_column_headers self) \<rparr>"
  shows "\<exists>e. RichView_render_table frepr self1 description df reason = (self1, Inl e)"
    and "\<exists>e. MarkdownView_render_table frepr self1 description df reason = (self1, Inl e)"
proof -
  obtain e where "RichView_cut frepr self1 df reason = Inl e"
    unfolding self1_def using pruned_cut_fails by blast
  then show "\<exists>e. RichView_render_table frepr self1 description df reason = (self1, Inl e)"
    and "\<exists>e. MarkdownView_render_table frepr self1 description df reason = (self1, Inl e)"
    by (simp_all add: RichView_render_table_def RichView_transform_def
          MarkdownView_render_table_def MarkdownView_transform_def MarkdownView_cut_eq)
qed

lemma emoji_name_columns_centred:
  assumes "self_name_style self = ''emoji''" and "name_style opts = ''emoji''"
  shows "set (map (Rich_justify self) (team_column opts pre)) = {JustifyCenter}
       \<and> set (map (Markdown_sep_cell self) (team_column opts pre)) = {'':------: | ''}"
proof -
  have "last5 (pre @ ''TeamEmoji'') = ''Emoji''"
    by (simp add: last5_def)
  moreover have "pre @ ''TeamEmoji'' \<noteq> ''losingScore''" and "pre @ ''TeamEmoji'' \<noteq> ''awayScore''"
    by (auto simp: append_eq_Cons_conv)
  ultimately show ?thesis
    using assms by (simp add: team_column_def Rich_justify_def Markdown_sep_cell_def)
qed

section \<open>Evaluations on the example\<close>

lemma example_view:
  "View_init example_options =
     \<lparr> nresults = 5,
       column_headers = [''season'', ''day'', ''isPostseason'', ''winningTeamName'', ''winningOdds'',
                         ''winningLosingScore'', ''losingOdds'', ''losingTeamName''],
       nice_column_headers = [''Sea'', ''Day'', ''Post'', ''Winner'', ''W Odds'', ''Score'', ''L Odds'', ''Loser''],
       self_name_style = ''long'',
       options = example_options,
       output_file = None \<rparr>"
  by (simp add: View_init_def assemble_column_headers_def team_column_def example_options_def)

lemma example_rich_shutout:
  "snd (RichView_transform (\<lambda>r. []) (View_init example_options) example_frame ''shutout'')
     = Inr [(''season'', [''3'', ''4'']), (''day'', [''11'', ''99'']),
            (''isPostseason'', ['' '', ''Y'']),
            (''winningTeamName'', [''Moist Talkers'', ''Tigers'']),
            (''winningLosingScore'', [''10 - 0'', ''7 - 0'']),
            (''losingTeamName'', [''Sunbeams'', ''Crabs''])]"
  by code_simp


lemma example_pruned_view:
  "fst (RichView_transform (\<lambda>r. []) (View_init example_options) example_frame ''shutout'')
     = \<lparr> nresults = 5,
         column_headers = [''season'', ''day'', ''isPostseason'', ''winningTeamName'',
                           ''winningLosingScore'', ''losingTeamName''],
         nice_column_headers = [''Sea'', ''Day'', ''Post'', ''Winner'', ''Score'', ''Loser''],
         self_name_style = ''long'',
         options = example_options,
         output_file = None \<rparr>"
  by code_simp


lemma example_rich_render:
  "snd (RichView_render_table (\<lambda>r. []) (View_init example_options) ''caption'' example_frame ''shutout'')
     = Inr (\<lparr> table_columns =
               [(''Sea'', JustifyDefault), (''Day'', JustifyDefault), (''Post'', JustifyDefault),
                (''Winner'', JustifyDefault), (''Score'', JustifyDefault), (''Loser'', JustifyDefault)],
             table_rows =
               [[''3'', ''11'', '' '', ''Moist Talkers'', ''10 - 0'', ''Sunbeams''],
                [''4'', ''99'', ''Y'', ''Tigers'', ''7 - 0'', ''Crabs'']] \<rparr>,
            ''caption'')"
  by code_simp

lemma example_markdown_render:
  "snd (MarkdownView_render_table (\<lambda>r. []) (View_init example_options) ''caption'' example_frame ''shutout'')
     = Inr (Printed
         ([CHR 0x0A, CHR 0x0A, CHR 0x0A] @ ''caption'' @ [CHR 0x0A, CHR 0x0A, CHR 0x0A]
          @ ''| Sea | Day | Winner | Score | Loser | '' @ [CHR 0x0A]
          @ ''| ------ |------ |------ |------ |------ |'' @ [CHR 0x0A]
          @ ''| 3 | 11 | Moist Talkers | 10 - 0 | Sunbeams | '' @ [CHR 0x0A]
          @ ''| 4 | 99* | Tigers | 7 - 0 | Crabs | '' @ [CHR 0x0A]
          @ [CHR 0x0A]))"
  by code_simp

lemma example_rich_second_blowout:
  "snd (RichView_render_table (\<lambda>r. [])
          (fst (RichView_render_table (\<lambda>r. []) (View_init example_options) ''caption'' example_frame ''shutout''))
          ''caption'' example_frame ''blowout'') = Inl KeyError"
  by code_simp

lemma example_rich_second_underdog:
  "snd (RichView_render_table (\<lambda>r. [])
          (fst (RichView_render_table (\<lambda>r. []) (View_init example_options) ''caption'' example_frame ''shutout''))
          ''caption'' example_frame ''underdog'') = Inl (SystemExit 1)"
  by code_simp

lemma example_markdown_second_blowout:
  "snd (MarkdownView_render_table (\<lambda>r. [])
          (fst (MarkdownView_render_table (\<lambda>r. []) (View_init example_options) ''caption'' example_frame ''shutout''))
          ''caption'' example_frame ''blowout'') = Inl KeyError"
  by code_simp

lemma example_markdown_second_underdog:
  "snd (MarkdownView_render_table (\<lambda>r. [])
          (fst (MarkdownView_render_table (\<lambda>r. []) (View_init example_options) ''caption'' example_frame ''shutout''))
          ''caption'' example_frame ''underdog'') = Inl (SystemExit 1)"
  by code_simp

lemma example_make_table:
  "snd (snd (RichView_make_table (\<lambda>r. []) example_reasons [''Tigers'', ''Sunbeams'']
               (View_init example_options) [(''shutout'', example_frame), (''blowout'', example_frame)]))
     = Some KeyError
   \<and> snd (snd (MarkdownView_make_table (\<lambda>r. []) example_reasons [''Tigers'', ''Sunbeams'']
               (View_init example_options) [(''shutout'', example_frame), (''blowout'', example_frame)]))
     = Some KeyError"
  by code_simp




section \<open>The column planner\<close>

text \<open>
  C2.  The claim: \<open>assemble_column_headers\<close> raises a configuration error when neither
  \<open>win_loss\<close> nor \<open>home_away\<close> is set, and when \<open>name_style\<close> is none of \<open>long\<close>,
  \<open>short\<close>, \<open>emoji\<close>.  The method has no \<open>raise\<close>: with neither flag it returns the
  three base columns, and with a flag and an unknown style it returns a plan without
  team-name keys.
\<close>

theorem assemble_column_headers_no_error_counterexample:
  "assemble_column_headers
     \<lparr> n_results = 10, name_style = ''long'', output_option = [], season = [''all''],
       postseason = False, team = [''Tigers''], win_loss = False, home_away = False,
       winning_pitcher = False, losing_pitcher = False, home_pitcher = False,
       away_pitcher = False \<rparr>
     = ([''season'', ''day'', ''isPostseason''], [''Sea'', ''Day'', ''Post''])
   \<and> assemble_column_headers
     \<lparr> n_results = 10, name_style = ''fancy'', output_option = [], season = [''all''],
       postseason = False, team = [''Tigers''], win_loss = True, home_away = False,
       winning_pitcher = False, losing_pitcher = False, home_pitcher = False,
       away_pitcher = False \<rparr>
     = ([''season'', ''day'', ''isPostseason'', ''winningOdds'', ''winningLosingScore'', ''losingOdds''],
        [''Sea'', ''Day'', ''Post'', ''Winner'', ''W Odds'', ''Score'', ''L Odds'', ''Loser''])"
  by (simp add: assemble_column_headers_def team_column_def)

text \<open>
  C2, as amended.  \<open>assemble_column_headers\<close> validates nothing and returns a column plan
  for every configuration: the plan always begins with the keys \<open>season\<close>, \<open>day\<close>,
  \<open>isPostseason\<close> and the labels \<open>Sea\<close>, \<open>Day\<close>, \<open>Post\<close>, and when neither orientation
  flag is set it is exactly these three columns.
\<close>

theorem assemble_column_headers_returns_plan:
  "take 3 (fst (assemble_column_headers opts)) = [''season'', ''day'', ''isPostseason'']
   \<and> take 3 (snd (assemble_column_headers opts)) = [''Sea'', ''Day'', ''Post'']
   \<and> (\<not> win_loss opts \<and> \<not> home_away opts \<longrightarrow>
        assemble_column_headers opts
          = ([''season'', ''day'', ''isPostseason''], [''Sea'', ''Day'', ''Post'']))"
  by (simp add: assemble_column_headers_def Let_def)

theorem assemble_column_headers_returns_plan_witness:
  "\<not> win_loss (example_options\<lparr>win_loss := False\<rparr>)
   \<and> \<not> home_away (example_options\<lparr>win_loss := False\<rparr>)
   \<and> assemble_column_headers (example_options\<lparr>win_loss := False\<rparr>)
       = ([''season'', ''day'', ''isPostseason''], [''Sea'', ''Day'', ''Post''])"
  using assemble_column_headers_returns_plan [of "example_options\<lparr>win_loss := False\<rparr>"]
  by (simp add: example_options_def)

section \<open>The description builder\<close>

text \<open>
  C5.  The claim: for every recognised category the description is the category phrase,
  then \<open>for all time\<close> when the season selector is \<open>all\<close>, else \<open>for season X\<close> or
  \<open>for seasons X, Y, ...\<close>, then \<open>(postseason only)\<close> exactly when the flag is set, then
  \<open>for team X\<close> for one team, \<open>for all teams\<close> when the selected set equals the roster,
  else \<open>for teams X, Y, ...\<close>, then the footer.  The roster test is
  \<open>len(set(ALLTEAMS) - set(options.team)) == 0\<close>: a selection that holds the roster and
  one more name is not equal to the roster and is still described as \<open>for all teams\<close>.
\<close>

theorem table_description_roster_counterexample:
  "''Nobody'' \<in> set [''Tigers'', ''Sunbeams'', ''Nobody'']
   \<and> ''Nobody'' \<notin> set [''Tigers'', ''Sunbeams'']
   \<and> table_description example_reasons [''Tigers'', ''Sunbeams'']
        (View_init (example_options\<lparr>team := [''Tigers'', ''Sunbeams'', ''Nobody'']\<rparr>)) ''shutout''
      = Inr (''Shutout games (games where the loser had zero runs) ''
             @ ''for season 3 '' @ ''for all teams''
             @ '' (note: all days and seasons displayed are 1-indexed)'')"
  by (simp add: table_description_def reason_phrase_def season_phrase_def postseason_phrase_def
        team_phrase_def View_init_def example_options_def assemble_column_headers_def
        team_column_def)

text \<open>
  C5, as amended.  For each of the six categories the description is the category
  phrase; then \<open>for all time\<close> when \<open>all\<close> is among the season selectors, else
  \<open>for season X\<close> for a list of one season, else \<open>for seasons X, Y, ...\<close> joined by commas;
  then \<open>(postseason only)\<close> exactly when the flag is set; then \<open>for team X\<close> when the team
  list has one entry, else \<open>for all teams\<close> when every team of the roster is in the list
  (in any order, whatever else the list holds), else \<open>for teams X, Y, ...\<close>; then the
  footer on 1-indexing.
\<close>

theorem table_description_phrases:
  assumes "reason \<in> set [''blowout'', ''shutout'', ''shame'', ''underdog'', ''maxedout'', ''defensive'']"
  shows "\<exists>phrase. reason_phrase reason = Some phrase \<and>
     table_description REASONS ALLTEAMS self reason
       = Inr (phrase
              @ (if ''all'' \<in> set (season (options self)) then ''for all time ''
                 else if length (season (options self)) = 1
                   then ''for season '' @ hd (season (options self)) @ '' ''
                 else ''for seasons '' @ join '', '' (season (options self)) @ '' '')
              @ (if postseason (options self) then ''(postseason only) '' else [])
              @ (if length (team (options self)) = 1 then ''for team '' @ hd (team (options self))
                 else if set ALLTEAMS \<subseteq> set (team (options self)) then ''for all teams''
                 else ''for teams '' @ join '', '' (team (options self)))
              @ '' (note: all days and seasons displayed are 1-indexed)'')"
proof -
  have one: "length xs = 1 \<Longrightarrow> join [] xs = hd xs" for xs :: "string list"
    by (cases xs) auto
  have sub: "(card (set ALLTEAMS - set ts) = 0) = (set ALLTEAMS \<subseteq> set ts)" for ts
    by auto
  from assms obtain phrase where p: "reason_phrase reason = Some phrase"
    by (auto simp: reason_phrase_def)
  show ?thesis
    using p
    by (simp add: table_description_def season_phrase_def postseason_phrase_def
          team_phrase_def one sub)
qed

theorem table_description_phrases_witness:
  "table_description example_reasons [''Tigers'', ''Sunbeams'']
     (View_init (example_options\<lparr>season := [''3'', ''4''], postseason := True,
                                 team := [''Sunbeams'', ''Tigers'']\<rparr>)) ''blowout''
   = Inr (''Blowout games (games with high scores and high run differentials) ''
          @ ''for seasons 3, 4 '' @ ''(postseason only) '' @ ''for all teams''
          @ '' (note: all days and seasons displayed are 1-indexed)'')"
  using table_description_phrases [of "''blowout''" example_reasons "[''Tigers'', ''Sunbeams'']"
      "View_init (example_options\<lparr>season := [''3'', ''4''], postseason := True,
                                  team := [''Sunbeams'', ''Tigers'']\<rparr>)"]
  by (simp add: reason_phrase_def View_init_def example_options_def assemble_column_headers_def
        team_column_def)

text \<open>
  C9.  Whenever the token \<open>all\<close> is a member of the season selector list, also beside
  other labels as in \<open>["3", "all"]\<close>, the scope phrase is \<open>for all time\<close> and the other
  labels play no part: the description is the one for the selector \<open>["all"]\<close>.
\<close>

theorem season_all_by_membership:
  assumes "reason_phrase reason = Some phrase"
      and "''all'' \<in> set (season (options self))"
  shows "table_description REASONS ALLTEAMS self reason
           = Inr (phrase @ ''for all time '' @ postseason_phrase (options self)
                  @ team_phrase ALLTEAMS (options self)
                  @ '' (note: all days and seasons displayed are 1-indexed)'')
         \<and> table_description REASONS ALLTEAMS self reason
           = table_description REASONS ALLTEAMS
               (self\<lparr>options := (options self)\<lparr>season := [''all'']\<rparr>\<rparr>) reason"
  using assms
  by (simp add: table_description_def season_phrase_def postseason_phrase_def team_phrase_def)

theorem season_all_by_membership_witness:
  "table_description example_reasons [''Tigers'', ''Sunbeams'']
     (View_init (example_options\<lparr>season := [''3'', ''all'']\<rparr>)) ''shame''
   = Inr (''Shame games (games where the loser was shamed) '' @ ''for all time ''
          @ ''for all teams'' @ '' (note: all days and seasons displayed are 1-indexed)'')"
  using season_all_by_membership [of "''shame''" "''Shame games (games where the loser was shamed) ''"
      "View_init (example_options\<lparr>season := [''3'', ''all'']\<rparr>)" example_reasons
      "[''Tigers'', ''Sunbeams'']"]
  by (simp add: reason_phrase_def View_init_def example_options_def assemble_column_headers_def
        team_column_def postseason_phrase_def team_phrase_def)

section \<open>The postseason glyph\<close>



section \<open>The row transformer\<close>

text \<open>
  C6.  Season and day round-trip through the display: when the stored season and day
  cells are the integers \<open>V\<close>, every row of the transformed frame (of either renderer)
  shows \<open>V + 1\<close>, and reading the shown text and subtracting 1 gives \<open>V\<close> back.
\<close>

theorem season_day_round_trip:
  assumes "map_of df ''season'' = Some (map PInt seasons)"
      and "map_of df ''day'' = Some (map PInt days)"
      and "snd (RichView_transform frepr self df reason) = Inr shown
           \<or> snd (MarkdownView_transform frepr self df reason) = Inr shown"
      and "k = min (len_df df) (nresults self)"
  shows "map_of shown ''season'' = Some (map (\<lambda>V. str_int (V + 1)) (slice_to k seasons))
       \<and> map_of shown ''day'' = Some (map (\<lambda>V. str_int (V + 1)) (slice_to k days))
       \<and> map (\<lambda>V. read_int (str_int (V + 1)) - 1) (slice_to k seasons) = slice_to k seasons
       \<and> map (\<lambda>V. read_int (str_int (V + 1)) - 1) (slice_to k days) = slice_to k days"
proof -
  let ?self1 = "self\<lparr> column_headers := without_odds (column_headers self),
                        nice_column_headers := without_odds (nice_column_headers self) \<rparr>"
  from assms(3) obtain cut3 where c: "RichView_cut frepr self df reason = Inr cut3"
    and f: "RichView_format frepr ?self1 cut3 = Inr shown \<or> MarkdownView_format frepr ?self1 cut3 = Inr shown"
    by (auto elim: RichView_transform_Inr MarkdownView_transform_Inr)
  have fs: "map_of shown ''season'' = map_option (map (py_str frepr)) (map_of cut3 ''season'')"
    using f by (auto dest: RichView_format_column [where c = "''season''"]
                           MarkdownView_format_column [where c = "''season''"])
  have fd: "map_of shown ''day'' = map_option (map (py_str frepr)) (map_of cut3 ''day'')"
    using f by (auto dest: RichView_format_column [where c = "''day''"]
                           MarkdownView_format_column [where c = "''day''"])
  have s: "map_of cut3 ''season'' = Some (map (\<lambda>V. PInt (V + 1)) (slice_to k seasons))"
    using RichView_cut_column [OF c _ assms(1)] assms(4) by simp
  have d: "map_of cut3 ''day'' = Some (map (\<lambda>V. PInt (V + 1)) (slice_to k days))"
    using RichView_cut_column [OF c _ assms(2)] assms(4) by simp
  show ?thesis
    unfolding fs fd s d by (simp add: comp_def read_int_str_int)
qed

theorem season_day_round_trip_witness:
  "map_of example_frame ''season'' = Some (map PInt [2, 3])
   \<and> map_of example_frame ''day'' = Some (map PInt [10, 98])
   \<and> snd (RichView_transform (\<lambda>r. []) (View_init example_options) example_frame ''shutout'')
       = Inr [(''season'', [''3'', ''4'']), (''day'', [''11'', ''99'']),
              (''isPostseason'', ['' '', ''Y'']),
              (''winningTeamName'', [''Moist Talkers'', ''Tigers'']),
              (''winningLosingScore'', [''10 - 0'', ''7 - 0'']),
              (''losingTeamName'', [''Sunbeams'', ''Crabs''])]
   \<and> map (\<lambda>V. read_int (str_int (V + 1)) - 1) [2, 3] = [2, 3]"
proof -
  have a: "map_of example_frame ''season'' = Some (map PInt [2, 3])"
    and b: "map_of example_frame ''day'' = Some (map PInt [10, 98])"
    by (simp_all add: example_frame_def)
  have k: "(2::int) = min (len_df example_frame) (nresults (View_init example_options))"
    by (simp add: example_view len_df_def example_frame_def)
  have s: "slice_to 2 [2, 3 :: int] = [2, 3]"
    by (simp add: slice_to_def)
  from season_day_round_trip [OF a b disjI1 [OF example_rich_shutout] k] s
  have "map (\<lambda>V. read_int (str_int (V + 1)) - 1) [2, 3] = [2, 3]"
    by simp
  with a b example_rich_shutout show ?thesis
    by simp
qed



text \<open>
  C8.  The two renderers transform alike.  On every view, frame and category the
  Markdown method leaves the object in the same state as the rich method (the same
  pruned column plan), fails exactly when the rich method fails and with the same
  exception, and otherwise produces the rich frame of display strings with one
  difference: the cells of \<open>isPostseason\<close>, the blank and \<open>Y\<close> of the rich method, are the
  empty string and \<open>*\<close>.
\<close>

theorem renderers_transform_alike:
  "fst (MarkdownView_transform frepr self df reason) = fst (RichView_transform frepr self df reason)
   \<and> (case snd (RichView_transform frepr self df reason) of
         Inl e \<Rightarrow> snd (MarkdownView_transform frepr self df reason) = Inl e
       | Inr rich \<Rightarrow>
           (\<exists>cells. map_of rich ''isPostseason''
                       = Some (map (\<lambda>c. if c = PBool False then '' '' else ''Y'') cells)
                   \<and> snd (MarkdownView_transform frepr self df reason)
                       = Inr (assign ''isPostseason''
                                (map (\<lambda>c. if c = PBool False then [] else ''*'') cells) rich)))"
proof (cases "RichView_cut frepr self df reason")
  case (Inl e)
  then show ?thesis
    by (simp add: RichView_transform_def MarkdownView_transform_def MarkdownView_cut_eq)
next
  case (Inr cut3)
  let ?self1 = "self\<lparr> column_headers := without_odds (column_headers self),
                        nice_column_headers := without_odds (nice_column_headers self) \<rparr>"
  have r: "RichView_transform frepr self df reason = (?self1, RichView_format frepr ?self1 cut3)"
    and m: "MarkdownView_transform frepr self df reason = (?self1, MarkdownView_format frepr ?self1 cut3)"
    using Inr by (simp_all add: RichView_transform_def MarkdownView_transform_def MarkdownView_cut_eq Let_def)
  show ?thesis
  proof (cases "map_of cut3 ''isPostseason''")
    case None
    then show ?thesis
      unfolding r m by (simp add: RichView_format_alt MarkdownView_format_alt)
  next
    case (Some old)
    show ?thesis
    proof (cases "foldE emoji_column (column_headers ?self1) cut3")
      case (Inl e)
      with Some show ?thesis
        unfolding r m by (simp add: RichView_format_alt MarkdownView_format_alt)
    next
      case (Inr cut5)
      have "\<exists>cells. map_of (assign ''isPostseason'' (map (\<lambda>c. if c = PBool False then '' '' else ''Y'') old)
                               (applymap_str frepr cut5)) ''isPostseason''
                       = Some (map (\<lambda>c. if c = PBool False then '' '' else ''Y'') cells)
                   \<and> assign ''isPostseason'' (map (\<lambda>c. if c = PBool False then [] else ''*'') old)
                        (applymap_str frepr cut5)
                       = assign ''isPostseason'' (map (\<lambda>c. if c = PBool False then [] else ''*'') cells)
                           (assign ''isPostseason'' (map (\<lambda>c. if c = PBool False then '' '' else ''Y'') old)
                              (applymap_str frepr cut5))"
        by (rule exI [of _ old]) (simp add: assign_map_of assign_assign)
      with Some Inr show ?thesis
        unfolding r m
        by (simp add: RichView_format_alt MarkdownView_format_alt Rich_glyph_text Markdown_glyph_text)
    qed
  qed
qed

section \<open>The odds annotation\<close>




section \<open>Column justification\<close>

text \<open>
  C3.  The claim: the column holding the losing or away score is right-justified (and
  gets \<open>------:\<close> in Markdown).  The two methods test the key against \<open>losingScore\<close> and
  \<open>awayScore\<close>, keys that \<open>assemble_column_headers\<close> never produces: the scores are in
  the one column \<open>winningLosingScore\<close> or \<open>homeAwayScore\<close>.  So for every configuration
  no planned column is right-justified, in either renderer, and on the example both
  tables show the score column with the default alignment.
\<close>

theorem score_column_never_right_justified:
  "JustifyRight \<notin> set (map (Rich_justify self) (fst (assemble_column_headers opts)))
   \<and> ''------: | '' \<notin> set (map (Markdown_sep_cell self) (fst (assemble_column_headers opts)))
   \<and> snd (RichView_render_table (\<lambda>r. []) (View_init example_options) ''caption'' example_frame ''shutout'')
       = Inr (\<lparr> table_columns =
                 [(''Sea'', JustifyDefault), (''Day'', JustifyDefault), (''Post'', JustifyDefault),
                  (''Winner'', JustifyDefault), (''Score'', JustifyDefault), (''Loser'', JustifyDefault)],
               table_rows =
                 [[''3'', ''11'', '' '', ''Moist Talkers'', ''10 - 0'', ''Sunbeams''],
                  [''4'', ''99'', ''Y'', ''Tigers'', ''7 - 0'', ''Crabs'']] \<rparr>,
              ''caption'')
   \<and> snd (MarkdownView_render_table (\<lambda>r. []) (View_init example_options) ''caption'' example_frame ''shutout'')
       = Inr (Printed
           ([CHR 0x0A, CHR 0x0A, CHR 0x0A] @ ''caption'' @ [CHR 0x0A, CHR 0x0A, CHR 0x0A]
            @ ''| Sea | Day | Winner | Score | Loser | '' @ [CHR 0x0A]
            @ ''| ------ |------ |------ |------ |------ |'' @ [CHR 0x0A]
            @ ''| 3 | 11 | Moist Talkers | 10 - 0 | Sunbeams | '' @ [CHR 0x0A]
            @ ''| 4 | 99* | Tigers | 7 - 0 | Crabs | '' @ [CHR 0x0A]
            @ [CHR 0x0A]))"
proof -
  have keys: "''losingScore'' \<notin> set (fst (assemble_column_headers opts))
              \<and> ''awayScore'' \<notin> set (fst (assemble_column_headers opts))"
    by (simp add: assemble_column_headers_def team_column_def Let_def)
  have r: "JustifyRight \<notin> set (map (Rich_justify self) (fst (assemble_column_headers opts)))"
    using keys by (auto simp: Rich_justify_def split: if_splits)
  have m: "''------: | '' \<notin> set (map (Markdown_sep_cell self) (fst (assemble_column_headers opts)))"
    using keys by (auto simp: Markdown_sep_cell_def split: if_splits)
  show ?thesis
    using r m example_rich_render example_markdown_render by simp
qed

section \<open>Rendering a second table\<close>

text \<open>
  C1.  The claim: rendering again after the odds entries have been pruned from the
  column plan does not fail unless the category is underdog.  Once a call of
  \<open>_render_table\<close> has returned, the plan of the object holds no odds key, the next
  selection \<open>df[self.column_headers]\<close> has no odds column, and \<open>cut.drop(oddslabels,
  axis=1, inplace=True)\<close> raises KeyError (or an earlier statement raises): every later
  call on the object ends in an exception, whatever the frame and the category, and
  leaves the object as it is.
\<close>

theorem later_render_fails:
  "(snd (RichView_render_table frepr self description df reason) = Inr shown \<longrightarrow>
      (\<exists>e. RichView_render_table frepr'
              (fst (RichView_render_table frepr self description df reason)) description' df' reason'
            = (fst (RichView_render_table frepr self description df reason), Inl e)))
   \<and> (snd (MarkdownView_render_table frepr self description df reason) = Inr emitted \<longrightarrow>
      (\<exists>e. MarkdownView_render_table frepr'
              (fst (MarkdownView_render_table frepr self description df reason)) description' df' reason'
            = (fst (MarkdownView_render_table frepr self description df reason), Inl e)))"
  using pruned_render_fails [of frepr' self description' df' reason']
  by (auto simp: RichView_render_state MarkdownView_render_state)

theorem later_render_fails_witness:
  "snd (RichView_render_table (\<lambda>r. []) (View_init example_options) ''caption'' example_frame ''shutout'')
     = Inr (\<lparr> table_columns =
               [(''Sea'', JustifyDefault), (''Day'', JustifyDefault), (''Post'', JustifyDefault),
                (''Winner'', JustifyDefault), (''Score'', JustifyDefault), (''Loser'', JustifyDefault)],
             table_rows =
               [[''3'', ''11'', '' '', ''Moist Talkers'', ''10 - 0'', ''Sunbeams''],
                [''4'', ''99'', ''Y'', ''Tigers'', ''7 - 0'', ''Crabs'']] \<rparr>,
            ''caption'')
   \<and> (\<exists>e. RichView_render_table (\<lambda>r. [])
             (fst (RichView_render_table (\<lambda>r. []) (View_init example_options) ''caption'' example_frame ''shutout''))
             ''caption'' example_frame ''blowout''
           = (fst (RichView_render_table (\<lambda>r. []) (View_init example_options) ''caption'' example_frame ''shutout''),
              Inl e))
   \<and> snd (RichView_render_table (\<lambda>r. [])
             (fst (RichView_render_table (\<lambda>r. []) (View_init example_options) ''caption'' example_frame ''shutout''))
             ''caption'' example_frame ''blowout'') = Inl KeyError
   \<and> snd (RichView_render_table (\<lambda>r. [])
             (fst (RichView_render_table (\<lambda>r. []) (View_init example_options) ''caption'' example_frame ''shutout''))
             ''caption'' example_frame ''underdog'') = Inl (SystemExit 1)
   \<and> snd (MarkdownView_render_table (\<lambda>r. [])
             (fst (MarkdownView_render_table (\<lambda>r. []) (View_init example_options) ''caption'' example_frame ''shutout''))
             ''caption'' example_frame ''blowout'') = Inl KeyError
   \<and> snd (MarkdownView_render_table (\<lambda>r. [])
             (fst (MarkdownView_render_table (\<lambda>r. []) (View_init example_options) ''caption'' example_frame ''shutout''))
             ''caption'' example_frame ''underdog'') = Inl (SystemExit 1)
   \<and> snd (snd (RichView_make_table (\<lambda>r. []) example_reasons [''Tigers'', ''Sunbeams'']
               (View_init example_options) [(''shutout'', example_frame), (''blowout'', example_frame)]))
     = Some KeyError
   \<and> snd (snd (MarkdownView_make_table (\<lambda>r. []) example_reasons [''Tigers'', ''Sunbeams'']
               (View_init example_options) [(''shutout'', example_frame), (''blowout'', example_frame)]))
     = Some KeyError"
proof -
  from later_render_fails [of "\<lambda>r. []" "View_init example_options" "''caption''" example_frame
      "''shutout''" _ "\<lambda>r. []" "''caption''" example_frame "''blowout''"]
    example_rich_render
  have "\<exists>e. RichView_render_table (\<lambda>r. [])
             (fst (RichView_render_table (\<lambda>r. []) (View_init example_options) ''caption'' example_frame ''shutout''))
             ''caption'' example_frame ''blowout''
           = (fst (RichView_render_table (\<lambda>r. []) (View_init example_options) ''caption'' example_frame ''shutout''),
              Inl e)"
    by blast
  then show ?thesis
    using example_rich_render example_rich_second_blowout example_rich_second_underdog
      example_markdown_second_blowout example_markdown_second_underdog example_make_table
    by simp
qed

end
